theory Spec2Isabelle
  imports Main
begin

section \<open>STREFEX entitlement engine: plan catalog, effective limits, subscription store\<close>

text \<open>
  A shallow embedding of \<^verbatim>\<open>src/services/stripeService.js\<close> (plan catalog, tier
  levels, account-type overrides) and \<^verbatim>\<open>src/services/featureFlags.js\<close> (the
  subscription store, its transitions and its queries).

  Conventions of the embedding.
  \<^item> A plain JavaScript object used as a dictionary is a map from the names of its own
    properties to their values. Reading \<^verbatim>\<open>obj[key]\<close> and testing \<^verbatim>\<open>key in obj\<close>
    follow the prototype chain: a name with no own property that \<^verbatim>\<open>Object.prototype\<close>
    defines (such as \<^verbatim>\<open>constructor\<close>) reads as the inherited member
    (\<^verbatim>\<open>js_get\<close>, \<^verbatim>\<open>js_in\<close> below); any other name without an own property reads
    as \<^verbatim>\<open>undefined\<close>, which is \<open>None\<close>. Strings are ASCII.
  \<^item> The values stored in limit maps are booleans, finite numbers and
    \<^verbatim>\<open>Infinity\<close>; the catalog's numbers are integers.
  \<^item> A point in time is the ECMAScript time value, an integer number of milliseconds
    since the epoch. The ISO string written by \<^verbatim>\<open>toISOString\<close> is represented by the
    time value it denotes (reading it back with \<^verbatim>\<open>new Date(...)\<close> returns that value),
    so \<^verbatim>\<open>trialEndsAt\<close> is an optional time value, \<open>None\<close> being \<^verbatim>\<open>null\<close>.
  \<^item> The store is passed explicitly: a transition takes the state and returns the
    new one, a query that may downgrade returns its answer together with the state.
    The clock (\<^verbatim>\<open>Date.now()\<close>, \<^verbatim>\<open>new Date()\<close>) and the session's superadmin flag
    (\<^verbatim>\<open>_isSuperAdmin()\<close>) are parameters.
  \<^item> \<^verbatim>\<open>persistSub\<close> writes a copy of the data to local storage and swallows every
    failure; nothing in the store reads it back after start-up, so it is left out.
\<close>

subsection \<open>Values\<close>

text \<open>The values a read of a limits or overrides object can give: a boolean, a number,
  \<^verbatim>\<open>Infinity\<close>, or a member inherited from \<^verbatim>\<open>Object.prototype\<close> (a built-in
  function; for \<^verbatim>\<open>__proto__\<close> the prototype object itself).\<close>

datatype jsval = JBool bool | JNum int | JInfinity | JInherited

text \<open>The property names of \<^verbatim>\<open>Object.prototype\<close>.\<close>

definition Object_prototype_names :: "string list" where
  "Object_prototype_names =
    [''constructor'', ''__defineGetter__'', ''__defineSetter__'', ''hasOwnProperty'',
     ''__lookupGetter__'', ''__lookupSetter__'', ''isPrototypeOf'', ''propertyIsEnumerable'',
     ''toString'', ''valueOf'', ''__proto__'', ''toLocaleString'']"

text \<open>\<^verbatim>\<open>obj[key]\<close> on a plain object: the own property, else the inherited member,
  else \<^verbatim>\<open>undefined\<close>.\<close>

definition js_get :: "(string \<rightharpoonup> jsval) \<Rightarrow> string \<Rightarrow> jsval option" where
  "js_get obj key =
    (case obj key of
       Some v \<Rightarrow> Some v
     | None \<Rightarrow> if key \<in> set Object_prototype_names then Some JInherited else None)"

text \<open>\<^verbatim>\<open>key in obj\<close> on a plain object.\<close>

definition js_in :: "string \<Rightarrow> (string \<rightharpoonup> jsval) \<Rightarrow> bool" where
  "js_in key obj = (obj key \<noteq> None \<or> key \<in> set Object_prototype_names)"

text \<open>An identifier argument as JavaScript can pass it: a string, \<^verbatim>\<open>null\<close> or
  \<^verbatim>\<open>undefined\<close>.\<close>

datatype ident = Str string | Null | Undefined

text \<open>Property access converts the key to a string.\<close>

fun toPropertyKey :: "ident \<Rightarrow> string" where
  "toPropertyKey (Str s) = s"
| "toPropertyKey Null = ''null''"
| "toPropertyKey Undefined = ''undefined''"

text \<open>\<^verbatim>\<open>n < v\<close> for a number \<open>n\<close>: a boolean operand is converted to 1 or 0; an
  inherited function or object is converted to a string that denotes no number, so the
  comparison is with \<^verbatim>\<open>NaN\<close> and is false.\<close>

fun js_lt :: "int \<Rightarrow> jsval \<Rightarrow> bool" where
  "js_lt n (JNum m) = (n < m)"
| "js_lt n JInfinity = True"
| "js_lt n (JBool b) = (n < (if b then 1 else 0))"
| "js_lt n JInherited = False"

subsection \<open>Tier constants and the plan catalog\<close>

definition TIERS_START :: int where "TIERS_START = 0"
definition TIERS_BASIC :: int where "TIERS_BASIC = 1"
definition TIERS_STANDARD :: int where "TIERS_STANDARD = 2"
definition TIERS_PREMIUM :: int where "TIERS_PREMIUM = 3"
definition TIERS_ENTERPRISE :: int where "TIERS_ENTERPRISE = 4"

text \<open>A plan: its id (field \<^verbatim>\<open>id\<close>), its tier and its limits. The display fields
  (name, prices, storage label, feature texts) play no part in entitlements.\<close>

record plan =
  plan_id :: string
  tier :: "int option"
  limits :: "string \<rightharpoonup> jsval"

definition start_limits :: "(string \<times> jsval) list" where
  "start_limits =
    [(''maxProjects'', JNum 3), (''maxUsers'', JNum 1), (''maxAssets'', JNum 10),
     (''maxStorageGB'', JNum 1), (''maxIndustries'', JNum 1), (''maxCategories'', JNum 1),
     (''maxServiceCategories'', JNum 1),
     (''basicDashboard'', JBool True), (''companyProfile'', JBool True),
     (''basicAnalytics'', JBool False), (''advancedReports'', JBool False),
     (''customIntegrations'', JBool False), (''auditManagement'', JBool False),
     (''costManagement'', JBool False), (''productionManagement'', JBool False),
     (''productionStandard'', JBool False), (''enterpriseManagement'', JBool False),
     (''teamManagement'', JBool False), (''messenger'', JBool False),
     (''profileContacts'', JBool False), (''aiInsights'', JBool False),
     (''erpIntegrations'', JBool False), (''procurement'', JBool False),
     (''contractManagement'', JBool False), (''spendAnalysis'', JBool False),
     (''complianceEsg'', JBool False), (''templateLibrary'', JBool False),
     (''auditLogs'', JBool False), (''emailSupport'', JBool False),
     (''prioritySupport'', JBool False), (''multipleIndustries'', JBool False),
     (''executiveSummary'', JBool False), (''projectAuditSchedule'', JBool False)]"

definition basic_limits :: "(string \<times> jsval) list" where
  "basic_limits =
    [(''maxProjects'', JNum 10), (''maxUsers'', JNum 5), (''maxAssets'', JNum 50),
     (''maxStorageGB'', JNum 5), (''maxIndustries'', JInfinity), (''maxCategories'', JInfinity),
     (''maxServiceCategories'', JInfinity),
     (''basicDashboard'', JBool True), (''companyProfile'', JBool True),
     (''basicAnalytics'', JBool True), (''advancedReports'', JBool False),
     (''customIntegrations'', JBool False), (''auditManagement'', JBool False),
     (''costManagement'', JBool False), (''productionManagement'', JBool False),
     (''productionStandard'', JBool False), (''enterpriseManagement'', JBool False),
     (''teamManagement'', JBool True), (''messenger'', JBool False),
     (''profileContacts'', JBool False), (''aiInsights'', JBool False),
     (''erpIntegrations'', JBool False), (''procurement'', JBool False),
     (''contractManagement'', JBool False), (''spendAnalysis'', JBool False),
     (''complianceEsg'', JBool False), (''templateLibrary'', JBool False),
     (''auditLogs'', JBool False), (''emailSupport'', JBool True),
     (''prioritySupport'', JBool False), (''multipleIndustries'', JBool True),
     (''executiveSummary'', JBool False), (''projectAuditSchedule'', JBool False)]"

definition standard_limits :: "(string \<times> jsval) list" where
  "standard_limits =
    [(''maxProjects'', JNum 50), (''maxUsers'', JNum 25), (''maxAssets'', JNum 500),
     (''maxStorageGB'', JNum 50), (''maxIndustries'', JInfinity), (''maxCategories'', JInfinity),
     (''maxServiceCategories'', JInfinity),
     (''basicDashboard'', JBool True), (''companyProfile'', JBool True),
     (''basicAnalytics'', JBool True), (''advancedReports'', JBool True),
     (''customIntegrations'', JBool False), (''auditManagement'', JBool False),
     (''costManagement'', JBool False), (''productionManagement'', JBool False),
     (''productionStandard'', JBool False), (''enterpriseManagement'', JBool False),
     (''teamManagement'', JBool True), (''messenger'', JBool False),
     (''profileContacts'', JBool False), (''aiInsights'', JBool False),
     (''erpIntegrations'', JBool False), (''procurement'', JBool False),
     (''contractManagement'', JBool False), (''spendAnalysis'', JBool False),
     (''complianceEsg'', JBool False), (''templateLibrary'', JBool False),
     (''auditLogs'', JBool False), (''emailSupport'', JBool True),
     (''prioritySupport'', JBool True), (''multipleIndustries'', JBool True),
     (''executiveSummary'', JBool True), (''projectAuditSchedule'', JBool False)]"

definition premium_limits :: "(string \<times> jsval) list" where
  "premium_limits =
    [(''maxProjects'', JInfinity), (''maxUsers'', JInfinity), (''maxAssets'', JInfinity),
     (''maxStorageGB'', JNum 100), (''storagePerUser'', JBool True),
     (''maxIndustries'', JInfinity), (''maxCategories'', JInfinity),
     (''maxServiceCategories'', JInfinity),
     (''basicDashboard'', JBool True), (''companyProfile'', JBool True),
     (''basicAnalytics'', JBool True), (''advancedReports'', JBool True),
     (''customIntegrations'', JBool True), (''auditManagement'', JBool True),
     (''costManagement'', JBool True), (''productionManagement'', JBool True),
     (''productionStandard'', JBool True), (''enterpriseManagement'', JBool False),
     (''teamManagement'', JBool True), (''messenger'', JBool True),
     (''profileContacts'', JBool True), (''aiInsights'', JBool False),
     (''erpIntegrations'', JBool False), (''procurement'', JBool False),
     (''contractManagement'', JBool False), (''spendAnalysis'', JBool False),
     (''complianceEsg'', JBool False), (''templateLibrary'', JBool False),
     (''auditLogs'', JBool False), (''emailSupport'', JBool True),
     (''prioritySupport'', JBool True), (''multipleIndustries'', JBool True),
     (''executiveSummary'', JBool True), (''projectAuditSchedule'', JBool True)]"

definition enterprise_limits :: "(string \<times> jsval) list" where
  "enterprise_limits =
    [(''maxProjects'', JInfinity), (''maxUsers'', JInfinity), (''maxAssets'', JInfinity),
     (''maxStorageGB'', JNum 500), (''storagePerUser'', JBool True),
     (''maxIndustries'', JInfinity), (''maxCategories'', JInfinity),
     (''maxServiceCategories'', JInfinity),
     (''basicDashboard'', JBool True), (''companyProfile'', JBool True),
     (''basicAnalytics'', JBool True), (''advancedReports'', JBool True),
     (''customIntegrations'', JBool True), (''auditManagement'', JBool True),
     (''costManagement'', JBool True), (''productionManagement'', JBool True),
     (''productionStandard'', JBool True), (''enterpriseManagement'', JBool True),
     (''teamManagement'', JBool True), (''messenger'', JBool True),
     (''profileContacts'', JBool True), (''aiInsights'', JBool True),
     (''erpIntegrations'', JBool True), (''procurement'', JBool True),
     (''contractManagement'', JBool True), (''spendAnalysis'', JBool True),
     (''complianceEsg'', JBool True), (''templateLibrary'', JBool True),
     (''auditLogs'', JBool True), (''emailSupport'', JBool True),
     (''prioritySupport'', JBool True), (''multipleIndustries'', JBool True),
     (''executiveSummary'', JBool True), (''projectAuditSchedule'', JBool True)]"

definition start_plan :: plan where
  "start_plan = \<lparr>plan_id = ''start'', tier = Some TIERS_START, limits = map_of start_limits\<rparr>"

definition basic_plan :: plan where
  "basic_plan = \<lparr>plan_id = ''basic'', tier = Some TIERS_BASIC, limits = map_of basic_limits\<rparr>"

definition standard_plan :: plan where
  "standard_plan =
    \<lparr>plan_id = ''standard'', tier = Some TIERS_STANDARD, limits = map_of standard_limits\<rparr>"

definition premium_plan :: plan where
  "premium_plan =
    \<lparr>plan_id = ''premium'', tier = Some TIERS_PREMIUM, limits = map_of premium_limits\<rparr>"

definition enterprise_plan :: plan where
  "enterprise_plan =
    \<lparr>plan_id = ''enterprise'', tier = Some TIERS_ENTERPRISE, limits = map_of enterprise_limits\<rparr>"

definition PLANS :: "plan list" where
  "PLANS = [start_plan, basic_plan, standard_plan, premium_plan, enterprise_plan]"

subsection \<open>Account-type override tables\<close>

definition BUYER_LIMIT_OVERRIDES :: "(string \<times> (string \<times> jsval) list) list" where
  "BUYER_LIMIT_OVERRIDES =
    [(''basic'', [(''maxIndustries'', JNum 1), (''maxCategories'', JNum 1),
                  (''multipleIndustries'', JBool False)]),
     (''standard'', [(''maxIndustries'', JNum 3), (''maxCategories'', JNum 3),
                     (''executiveSummary'', JBool True)]),
     (''premium'', []),
     (''enterprise'', [])]"

definition SERVICE_PROVIDER_LIMIT_OVERRIDES :: "(string \<times> (string \<times> jsval) list) list" where
  "SERVICE_PROVIDER_LIMIT_OVERRIDES =
    [(''start'', [(''maxIndustries'', JNum 0), (''maxCategories'', JNum 0),
                  (''maxServiceCategories'', JNum 1), (''multipleIndustries'', JBool False),
                  (''executiveSummary'', JBool False)]),
     (''basic'', [(''maxIndustries'', JNum 0), (''maxCategories'', JNum 0),
                  (''maxServiceCategories'', JInfinity), (''executiveSummary'', JBool False)]),
     (''standard'', [(''maxIndustries'', JNum 0), (''maxCategories'', JNum 0),
                     (''maxServiceCategories'', JInfinity), (''executiveSummary'', JBool False)]),
     (''premium'', [(''maxIndustries'', JNum 0), (''maxCategories'', JNum 0),
                    (''maxServiceCategories'', JInfinity)]),
     (''enterprise'', [(''maxIndustries'', JNum 0), (''maxCategories'', JNum 0),
                       (''maxServiceCategories'', JInfinity)])]"

subsection \<open>Catalog functions\<close>

text \<open>\<^verbatim>\<open>PLANS.find((p) => p.id === planId) || PLANS[0]\<close>: strict equality with the
  plan's id, a string, holds for that very string only.\<close>

definition getPlanById :: "ident \<Rightarrow> plan" where
  "getPlanById planId =
    (case find (\<lambda>p. Str (plan_id p) = planId) PLANS of
       Some p \<Rightarrow> p
     | None \<Rightarrow> PLANS ! 0)"

text \<open>\<^verbatim>\<open>TABLE[planId] || {}\<close>, the patch that is spread over the base limits. For a
  plan id that names a member of \<^verbatim>\<open>Object.prototype\<close> the read gives that member,
  which has no enumerable own property: spreading it adds nothing, as the empty patch.\<close>

definition patch_of :: "(string \<times> (string \<times> jsval) list) list \<Rightarrow> ident \<Rightarrow> (string \<rightharpoonup> jsval)" where
  "patch_of table planId =
    (case map_of table (toPropertyKey planId) of
       Some overrides \<Rightarrow> map_of overrides
     | None \<Rightarrow> Map.empty)"

definition getEffectiveLimits :: "ident \<Rightarrow> ident \<Rightarrow> (string \<rightharpoonup> jsval)" where
  "getEffectiveLimits planId accountType =
    (let plan = getPlanById planId;
         base = limits plan
     in if accountType = Str ''buyer'' then
          base ++ patch_of BUYER_LIMIT_OVERRIDES planId
        else if accountType = Str ''service_provider'' then
          (base ++ patch_of SERVICE_PROVIDER_LIMIT_OVERRIDES planId)
            (''executiveSummary'' \<mapsto> JBool False)
        else base(''executiveSummary'' \<mapsto> JBool False))"

definition BUYER_TRIAL_DAYS :: int where "BUYER_TRIAL_DAYS = 30"

text \<open>\<^verbatim>\<open>plan.tier ?? TIERS.START\<close>\<close>

definition getTierLevel :: "ident \<Rightarrow> int" where
  "getTierLevel planId =
    (case tier (getPlanById planId) of Some t \<Rightarrow> t | None \<Rightarrow> TIERS_START)"

subsection \<open>Promo codes\<close>

record promo =
  trialDays :: int
  promoPlanId :: string
  description :: string

definition PROMO_CODES :: "(string \<times> promo) list" where
  "PROMO_CODES =
    [(''STREFEX30'',
        \<lparr>trialDays = 30, promoPlanId = ''basic'', description = ''30-day Basic trial''\<rparr>),
     (''STREFEX60'',
        \<lparr>trialDays = 60, promoPlanId = ''basic'', description = ''60-day Basic trial''\<rparr>),
     (''STREFEX90'',
        \<lparr>trialDays = 90, promoPlanId = ''basic'', description = ''90-day Basic trial''\<rparr>),
     (''STREFEXPRO'',
        \<lparr>trialDays = 30, promoPlanId = ''standard'', description = ''30-day Standard trial''\<rparr>),
     (''STREFEXPRO60'',
        \<lparr>trialDays = 60, promoPlanId = ''standard'', description = ''60-day Standard trial''\<rparr>),
     (''STREFEXPREM'',
        \<lparr>trialDays = 30, promoPlanId = ''premium'', description = ''30-day Premium trial''\<rparr>),
     (''STREFEXVIP'',
        \<lparr>trialDays = 90, promoPlanId = ''premium'', description = ''90-day Premium trial''\<rparr>)]"

text \<open>\<^verbatim>\<open>PROMO_CODES[code] || null\<close>. Its one caller passes a normalized code, which has
  no lower-case letter and so is never a name inherited from \<^verbatim>\<open>Object.prototype\<close>
  (\<open>normalized_code_not_inherited\<close> below): the read is that of an own property.\<close>

definition getPromoConfig :: "string \<Rightarrow> promo option" where
  "getPromoConfig code = map_of PROMO_CODES code"

subsection \<open>Strings: trim and toUpperCase\<close>

text \<open>The white space and line terminators that \<^verbatim>\<open>trim\<close> removes, among the
  characters below 256: tab, line feed, vertical tab, form feed, carriage return, space
  and the no-break space.\<close>

definition isWhiteSpace :: "char \<Rightarrow> bool" where
  "isWhiteSpace c = (of_char c \<in> {9, 10, 11, 12, 13, 32, 160 :: nat})"

definition trim :: "string \<Rightarrow> string" where
  "trim s = rev (dropWhile isWhiteSpace (rev (dropWhile isWhiteSpace s)))"

text \<open>Upper case of an ASCII character: the letters a to z move to A to Z.\<close>

definition toUpperChar :: "char \<Rightarrow> char" where
  "toUpperChar c =
    (let n = of_char c :: nat in if 97 \<le> n \<and> n \<le> 122 then char_of (n - 32) else c)"

definition toUpperCase :: "string \<Rightarrow> string" where
  "toUpperCase s = map toUpperChar s"

subsection \<open>Dates\<close>

definition MS_PER_DAY :: int where
  "MS_PER_DAY = 24 * 60 * 60 * 1000"

text \<open>A Date holds a time value of at most 8.64e15 milliseconds either side of the
  epoch; beyond it the Date is invalid and \<^verbatim>\<open>toISOString\<close> throws a RangeError.\<close>

datatype error = RangeError

definition MAX_TIME :: int where
  "MAX_TIME = 8640000000000000"

definition validTime :: "int \<Rightarrow> bool" where
  "validTime t = (- MAX_TIME \<le> t \<and> t \<le> MAX_TIME)"

definition toISOString :: "int \<Rightarrow> error + int" where
  "toISOString t = (if validTime t then Inr t else Inl RangeError)"

subsection \<open>The subscription store\<close>

record sub_state =
  planId :: string
  accountType :: string
  status :: string
  trialEndsAt :: "int option"
  billingPeriod :: string
  overrides :: "string \<rightharpoonup> jsval"
  promoCode :: "string option"

text \<open>The state of a store created with nothing in local storage.\<close>

definition initial_state :: sub_state where
  "initial_state =
    \<lparr>planId = ''start'', accountType = ''seller'', status = ''active'', trialEndsAt = None,
     billingPeriod = ''monthly'', overrides = Map.empty, promoCode = None\<rparr>"

text \<open>\<^verbatim>\<open>setPlan(planId, status = 'active', trialEndsAt = null)\<close>: an omitted status
  (\<open>None\<close>) takes the default; an omitted end of trial is \<^verbatim>\<open>null\<close>.\<close>

definition setPlan :: "string \<Rightarrow> string option \<Rightarrow> int option \<Rightarrow> sub_state \<Rightarrow> sub_state" where
  "setPlan planId' status' trialEndsAt' s =
    s\<lparr>planId := planId',
      status := (case status' of None \<Rightarrow> ''active'' | Some st \<Rightarrow> st),
      trialEndsAt := trialEndsAt'\<rparr>"

definition setAccountType :: "string \<Rightarrow> sub_state \<Rightarrow> sub_state" where
  "setAccountType accountType' s = s\<lparr>accountType := accountType'\<rparr>"

definition setBillingPeriod :: "string \<Rightarrow> sub_state \<Rightarrow> sub_state" where
  "setBillingPeriod billingPeriod' s = s\<lparr>billingPeriod := billingPeriod'\<rparr>"

definition startTrial :: "int \<Rightarrow> sub_state \<Rightarrow> error + sub_state" where
  "startTrial now s =
    (case toISOString (now + 14 * MS_PER_DAY) of
       Inl e \<Rightarrow> Inl e
     | Inr trialEndsAt' \<Rightarrow>
         Inr (s\<lparr>planId := ''enterprise'', status := ''trialing'',
                trialEndsAt := Some trialEndsAt'\<rparr>))"

text \<open>\<^verbatim>\<open>startBuyerTrial(days = BUYER_TRIAL_DAYS)\<close>: \<open>None\<close> is the omitted argument.
  Here and in \<^verbatim>\<open>extendTrial\<close> the number of days is a whole number.\<close>

definition startBuyerTrial :: "int \<Rightarrow> int option \<Rightarrow> sub_state \<Rightarrow> error + sub_state" where
  "startBuyerTrial now days' s =
    (let days = (case days' of None \<Rightarrow> BUYER_TRIAL_DAYS | Some d \<Rightarrow> d) in
     case toISOString (now + days * MS_PER_DAY) of
       Inl e \<Rightarrow> Inl e
     | Inr trialEndsAt' \<Rightarrow>
         Inr (s\<lparr>planId := ''basic'', status := ''trialing'',
                trialEndsAt := Some trialEndsAt', accountType := ''buyer''\<rparr>))"

definition extendTrial :: "int \<Rightarrow> int \<Rightarrow> sub_state \<Rightarrow> error + sub_state" where
  "extendTrial now extraDays s =
    (let current = (case trialEndsAt s of Some t \<Rightarrow> t | None \<Rightarrow> now);
         base = (if current > now then current else now)
     in case toISOString (base + extraDays * MS_PER_DAY) of
          Inl e \<Rightarrow> Inl e
        | Inr trialEndsAt' \<Rightarrow>
            Inr (s\<lparr>status := ''trialing'', trialEndsAt := Some trialEndsAt'\<rparr>))"

text \<open>\<^verbatim>\<open>applyPromoCode(code)\<close>: \<open>None\<close> is a \<^verbatim>\<open>null\<close> or \<^verbatim>\<open>undefined\<close> code, which
  \<^verbatim>\<open>code || ''\<close> turns into the empty string. The result is the returned boolean and
  the state.\<close>

definition normalized_code :: "string option \<Rightarrow> string" where
  "normalized_code code = toUpperCase (trim (case code of None \<Rightarrow> [] | Some c \<Rightarrow> c))"

definition applyPromoCode :: "int \<Rightarrow> string option \<Rightarrow> sub_state \<Rightarrow> error + (bool \<times> sub_state)" where
  "applyPromoCode now code s =
    (let normalized = normalized_code code in
     if normalized = [] then Inr (False, s)
     else case getPromoConfig normalized of
       None \<Rightarrow> Inr (False, s)
     | Some promo \<Rightarrow>
         (case (if trialDays promo \<noteq> 0
                then map_sum id Some (toISOString (now + trialDays promo * MS_PER_DAY))
                else Inr (trialEndsAt s)) of
            Inl e \<Rightarrow> Inl e
          | Inr trialEndsAt' \<Rightarrow>
              (let planId' = (if promoPlanId promo \<noteq> [] then promoPlanId promo else planId s);
                   status' = (if trialDays promo \<noteq> 0 then ''trialing'' else status s)
               in Inr (True, s\<lparr>planId := planId', status := status',
                                trialEndsAt := trialEndsAt', promoCode := Some normalized\<rparr>))))"

definition downgrade :: "sub_state \<Rightarrow> sub_state" where
  "downgrade s =
    (let acctType = accountType s;
         fallbackPlan = (if acctType = ''buyer'' then ''basic'' else ''start'')
     in s\<lparr>planId := fallbackPlan,
          status := (if acctType = ''buyer'' then ''trial_expired'' else ''active''),
          trialEndsAt := None, billingPeriod := ''monthly'',
          overrides := Map.empty, promoCode := None\<rparr>)"

definition setOverrides :: "(string \<rightharpoonup> jsval) \<Rightarrow> sub_state \<Rightarrow> sub_state" where
  "setOverrides overrides' s = s\<lparr>overrides := overrides'\<rparr>"

subsection \<open>Queries\<close>

text \<open>\<^verbatim>\<open>status === 'trialing' && trialEndsAt && new Date(trialEndsAt) < new Date()\<close>\<close>

definition trialLapsed :: "int \<Rightarrow> sub_state \<Rightarrow> bool" where
  "trialLapsed now s =
    (status s = ''trialing'' \<and> (case trialEndsAt s of None \<Rightarrow> False | Some t \<Rightarrow> t < now))"

text \<open>The minimal access of an expired buyer trial or a canceled subscription.\<close>

definition baseline :: "string \<rightharpoonup> jsval" where
  "baseline = map_of [(''basicDashboard'', JBool True), (''companyProfile'', JBool True)]"

definition hasFeature :: "bool \<Rightarrow> int \<Rightarrow> string \<Rightarrow> sub_state \<Rightarrow> jsval \<times> sub_state" where
  "hasFeature isSuperAdmin now featureKey s =
    (if isSuperAdmin then (JBool True, s)
     else if trialLapsed now s then (JBool False, downgrade s)
     else if status s = ''trial_expired'' \<or> status s = ''canceled'' then
       ((case js_get baseline featureKey of Some v \<Rightarrow> v | None \<Rightarrow> JBool False), s)
     else if js_in featureKey (overrides s) then
       (case js_get (overrides s) featureKey of
          Some v \<Rightarrow> (v, s)
        | None \<Rightarrow> (JBool False, s))
     else
       ((case js_get (getEffectiveLimits (Str (planId s)) (Str (accountType s))) featureKey of
           Some v \<Rightarrow> v
         | None \<Rightarrow> JBool False), s))"

definition hasTier :: "bool \<Rightarrow> int \<Rightarrow> int \<Rightarrow> sub_state \<Rightarrow> bool \<times> sub_state" where
  "hasTier isSuperAdmin now requiredTier s =
    (if isSuperAdmin then (True, s)
     else if trialLapsed now s then (TIERS_START \<ge> requiredTier, downgrade s)
     else if status s = ''trial_expired'' \<or> status s = ''canceled'' then
       (TIERS_START \<ge> requiredTier, s)
     else (getTierLevel (Str (planId s)) \<ge> requiredTier, s))"

text \<open>\<^verbatim>\<open>withinLimit\<close> reads neither the clock nor the status, and writes nothing.\<close>

definition withinLimit :: "bool \<Rightarrow> string \<Rightarrow> int \<Rightarrow> sub_state \<Rightarrow> bool" where
  "withinLimit isSuperAdmin limitKey currentCount s =
    (if isSuperAdmin then True
     else case js_get (getEffectiveLimits (Str (planId s)) (Str (accountType s))) limitKey of
       None \<Rightarrow> True
     | Some JInfinity \<Rightarrow> True
     | Some mx \<Rightarrow> js_lt currentCount mx)"

definition isTrial :: "int \<Rightarrow> sub_state \<Rightarrow> bool" where
  "isTrial now s =
    (if status s \<noteq> ''trialing'' \<or> trialEndsAt s = None then False
     else case trialEndsAt s of Some t \<Rightarrow> t > now | None \<Rightarrow> False)"

subsection \<open>Predicates of the specification\<close>

text \<open>The invariant of the data model: a trialing subscription has an end of trial.\<close>

definition trial_inv :: "sub_state \<Rightarrow> bool" where
  "trial_inv s = (status s = ''trialing'' \<longrightarrow> trialEndsAt s \<noteq> None)"

subsection \<open>The state after a call that may throw\<close>

text \<open>A transition that throws leaves the store as it was: the exception is raised
  before \<^verbatim>\<open>set\<close> is reached.\<close>

definition state_after :: "sub_state \<Rightarrow> error + sub_state \<Rightarrow> sub_state" where
  "state_after s r = (case r of Inl e \<Rightarrow> s | Inr s' \<Rightarrow> s')"

subsection \<open>Example states\<close>

text \<open>A clock reading (14 November 2023) and two subscriptions whose trial ended one
  day before it: a buyer on the Basic trial, and a seller on the Enterprise trial.\<close>

definition example_now :: int where
  "example_now = 1700000000000"

definition expired_buyer_trial :: sub_state where
  "expired_buyer_trial =
    \<lparr>planId = ''basic'', accountType = ''buyer'', status = ''trialing'',
     trialEndsAt = Some (example_now - MS_PER_DAY), billingPeriod = ''monthly'',
     overrides = Map.empty, promoCode = None\<rparr>"

definition expired_enterprise_trial :: sub_state where
  "expired_enterprise_trial =
    \<lparr>planId = ''enterprise'', accountType = ''seller'', status = ''trialing'',
     trialEndsAt = Some (example_now - MS_PER_DAY), billingPeriod = ''annual'',
     overrides = Map.empty, promoCode = Some ''STREFEXVIP''\<rparr>"

section \<open>Properties\<close>

subsection \<open>The catalog\<close>

lemma plan_ids [simp]:
  "plan_id start_plan = ''start''" "plan_id basic_plan = ''basic''"
  "plan_id standard_plan = ''standard''" "plan_id premium_plan = ''premium''"
  "plan_id enterprise_plan = ''enterprise''"
  by (simp_all add: start_plan_def basic_plan_def standard_plan_def premium_plan_def
      enterprise_plan_def)

lemma getPlanById_known:
  "getPlanById (Str ''start'') = start_plan"
  "getPlanById (Str ''basic'') = basic_plan"
  "getPlanById (Str ''standard'') = standard_plan"
  "getPlanById (Str ''premium'') = premium_plan"
  "getPlanById (Str ''enterprise'') = enterprise_plan"
  by (simp_all add: getPlanById_def PLANS_def)

lemma getPlanById_unknown:
  assumes "\<forall>p \<in> set PLANS. pid \<noteq> Str (plan_id p)"
  shows "getPlanById pid = start_plan"
proof -
  have "find (\<lambda>p. Str (plan_id p) = pid) PLANS = None"
    using assms by (auto simp: find_None_iff)
  then show ?thesis by (simp add: getPlanById_def PLANS_def)
qed

lemma tier_start: "tier start_plan = Some 0"
  by (simp add: start_plan_def TIERS_START_def)

text \<open>
  Claim C9. \<^verbatim>\<open>getPlanById\<close> always returns a plan: called with the id of a catalog
  plan it returns that plan, and called with anything that is the id of no catalog plan
  (\<^verbatim>\<open>null\<close> and \<^verbatim>\<open>undefined\<close> included) it returns the first plan of the catalog,
  the start plan; the tier level of such an id is 0.
\<close>

theorem getPlanById_total:
  "(\<forall>p \<in> set PLANS. getPlanById (Str (plan_id p)) = p) \<and>
   ((\<forall>p \<in> set PLANS. pid \<noteq> Str (plan_id p)) \<longrightarrow>
      getPlanById pid = PLANS ! 0 \<and> PLANS ! 0 = start_plan \<and> getTierLevel pid = 0)"
proof (intro conjI impI)
  show "\<forall>p \<in> set PLANS. getPlanById (Str (plan_id p)) = p"
    by (simp add: PLANS_def getPlanById_known)
next
  assume a: "\<forall>p \<in> set PLANS. pid \<noteq> Str (plan_id p)"
  show "getPlanById pid = PLANS ! 0"
    using getPlanById_unknown [OF a] by (simp add: PLANS_def)
  show "PLANS ! 0 = start_plan" by (simp add: PLANS_def)
  show "getTierLevel pid = 0"
    using getPlanById_unknown [OF a] by (simp add: getTierLevel_def tier_start)
qed

theorem getPlanById_total_witness:
  "getPlanById (Str ''premium'') = premium_plan \<and>
   getPlanById Null = start_plan \<and> getTierLevel Null = 0 \<and>
   getPlanById Undefined = start_plan \<and> getTierLevel Undefined = 0 \<and>
   getPlanById (Str ''gold'') = start_plan \<and> getTierLevel (Str ''gold'') = 0"
  using getPlanById_total [of Null] getPlanById_total [of Undefined]
    getPlanById_total [of "Str ''gold''"]
  by (simp add: PLANS_def)

subsection \<open>Effective limits\<close>

lemma standard_own_executiveSummary:
  "limits (getPlanById (Str ''standard'')) ''executiveSummary'' = Some (JBool True)"
  by (simp add: getPlanById_known standard_plan_def standard_limits_def)

text \<open>
  Claim C4. For a seller and for a service provider the effective limits map
  \<^verbatim>\<open>executiveSummary\<close> to \<^verbatim>\<open>false\<close>, whatever the plan id (so for every plan of the
  catalog) and whatever the plan's own limits say.
\<close>

theorem executiveSummary_forced_false:
  "getEffectiveLimits pid (Str ''seller'') ''executiveSummary'' = Some (JBool False) \<and>
   getEffectiveLimits pid (Str ''service_provider'') ''executiveSummary'' = Some (JBool False)"
  by (simp add: getEffectiveLimits_def Let_def)

text \<open>
  Claim C10. An account type that is neither \<^verbatim>\<open>'buyer'\<close> nor \<^verbatim>\<open>'service_provider'\<close>
  (any other string, \<^verbatim>\<open>null\<close>, \<^verbatim>\<open>undefined\<close>) gets the limits of a seller: the base
  plan's limits, no override patch, \<^verbatim>\<open>executiveSummary\<close> set to \<^verbatim>\<open>false\<close>.
\<close>

theorem other_accountType_as_seller:
  assumes "acct \<noteq> Str ''buyer''" and "acct \<noteq> Str ''service_provider''"
  shows "getEffectiveLimits pid acct = getEffectiveLimits pid (Str ''seller'') \<and>
    getEffectiveLimits pid acct =
      (limits (getPlanById pid))(''executiveSummary'' \<mapsto> JBool False)"
  using assms by (simp add: getEffectiveLimits_def Let_def)

theorem other_accountType_as_seller_witness:
  "getEffectiveLimits (Str ''standard'') Null =
     getEffectiveLimits (Str ''standard'') (Str ''seller'') \<and>
   getEffectiveLimits (Str ''standard'') Undefined =
     (limits standard_plan)(''executiveSummary'' \<mapsto> JBool False) \<and>
   getEffectiveLimits (Str ''standard'') (Str ''admin'') =
     (limits standard_plan)(''executiveSummary'' \<mapsto> JBool False)"
proof -
  have a: "getEffectiveLimits (Str ''standard'') Null =
      getEffectiveLimits (Str ''standard'') (Str ''seller'')"
    using other_accountType_as_seller [of Null "Str ''standard''", THEN conjunct1] by simp
  have b: "getEffectiveLimits (Str ''standard'') Undefined =
      (limits standard_plan)(''executiveSummary'' \<mapsto> JBool False)"
    using other_accountType_as_seller [of Undefined "Str ''standard''", THEN conjunct2]
    by (simp add: getPlanById_known)
  have c: "getEffectiveLimits (Str ''standard'') (Str ''admin'') =
      (limits standard_plan)(''executiveSummary'' \<mapsto> JBool False)"
    using other_accountType_as_seller [of "Str ''admin''" "Str ''standard''", THEN conjunct2]
    by (simp add: getPlanById_known)
  from a b c show ?thesis by blast
qed

lemma limits_start_maxProjects:
  "getEffectiveLimits (Str ''start'') acct ''maxProjects'' = Some (JNum 3)"
  by (simp add: getEffectiveLimits_def Let_def getPlanById_known start_plan_def start_limits_def
      patch_of_def BUYER_LIMIT_OVERRIDES_def SERVICE_PROVIDER_LIMIT_OVERRIDES_def map_add_def)

lemma limits_enterprise_seller_maxProjects:
  "getEffectiveLimits (Str ''enterprise'') (Str ''seller'') ''maxProjects'' = Some JInfinity"
  by (simp add: getEffectiveLimits_def Let_def getPlanById_known enterprise_plan_def
      enterprise_limits_def)

subsection \<open>Promo codes\<close>

lemma normalized_STREFEX30: "normalized_code (Some ''STREFEX30'') = ''STREFEX30''"
  by (simp add: normalized_code_def trim_def toUpperCase_def toUpperChar_def isWhiteSpace_def)

lemma normalized_examples:
  "normalized_code (Some ''BOGUS'') = ''BOGUS''" "normalized_code (Some '' '') = []"
  "normalized_code (Some []) = []" "normalized_code None = []"
  by (simp_all add: normalized_code_def trim_def toUpperCase_def toUpperChar_def isWhiteSpace_def)

lemma normalized_lower_case: "normalized_code (Some '' strefex30 '') = ''STREFEX30''"
  by code_simp

lemma getPromoConfig_STREFEX30:
  "getPromoConfig ''STREFEX30'' =
    Some \<lparr>trialDays = 30, promoPlanId = ''basic'', description = ''30-day Basic trial''\<rparr>"
  by (simp add: getPromoConfig_def PROMO_CODES_def)

lemma toUpperChar_not_lower:
  "\<not> (97 \<le> (of_char (toUpperChar c) :: nat) \<and> (of_char (toUpperChar c) :: nat) \<le> 122)"
  by (auto simp: toUpperChar_def Let_def)

lemma toUpperCase_not_lower:
  "c \<in> set (toUpperCase s) \<Longrightarrow> \<not> (97 \<le> (of_char c :: nat) \<and> (of_char c :: nat) \<le> 122)"
  using toUpperChar_not_lower by (auto simp: toUpperCase_def)

lemma normalized_code_not_inherited: "normalized_code code \<notin> set Object_prototype_names"
proof
  assume "normalized_code code \<in> set Object_prototype_names"
  then have "CHR ''o'' \<in> set (normalized_code code) \<or> CHR ''e'' \<in> set (normalized_code code)"
    by (auto simp: Object_prototype_names_def)
  then show False
    using toUpperCase_not_lower [of "CHR ''o''"] toUpperCase_not_lower [of "CHR ''e''"]
    by (auto simp: normalized_code_def)
qed

lemma getPromoConfig_None: "code \<notin> fst ` set PROMO_CODES \<Longrightarrow> getPromoConfig code = None"
  by (simp add: getPromoConfig_def map_of_eq_None_iff)

text \<open>
  Claim C6. From every prior state, \<^verbatim>\<open>applyPromoCode('STREFEX30')\<close> returns
  \<^verbatim>\<open>true\<close> and leaves the plan \<^verbatim>\<open>'basic'\<close>, the status \<^verbatim>\<open>'trialing'\<close>, the end
  of trial 30 days after now and the promo code \<^verbatim>\<open>'STREFEX30'\<close>; account type, billing
  period and overrides are those of the prior state. The clock is any reading whose
  thirtieth day after is a date a \<^verbatim>\<open>Date\<close> can hold.
\<close>

theorem applyPromoCode_STREFEX30:
  assumes "validTime (now + 30 * MS_PER_DAY)"
  shows "applyPromoCode now (Some ''STREFEX30'') s =
    Inr (True, s\<lparr>planId := ''basic'', status := ''trialing'',
                   trialEndsAt := Some (now + 30 * MS_PER_DAY),
                   promoCode := Some ''STREFEX30''\<rparr>)"
  using assms
  by (simp add: applyPromoCode_def normalized_STREFEX30 getPromoConfig_STREFEX30
      toISOString_def Let_def)

theorem applyPromoCode_STREFEX30_witness:
  "applyPromoCode example_now (Some ''STREFEX30'') expired_enterprise_trial =
    Inr (True, \<lparr>planId = ''basic'', accountType = ''seller'', status = ''trialing'',
      trialEndsAt = Some 1702592000000, billingPeriod = ''annual'',
      overrides = Map.empty, promoCode = Some ''STREFEX30''\<rparr>)"
proof -
  have v: "validTime (example_now + 30 * MS_PER_DAY)"
    by (simp add: validTime_def example_now_def MS_PER_DAY_def MAX_TIME_def)
  show ?thesis
    using applyPromoCode_STREFEX30 [OF v, of expired_enterprise_trial]
    by (simp add: expired_enterprise_trial_def example_now_def MS_PER_DAY_def)
qed

text \<open>
  Claim C7. \<^verbatim>\<open>applyPromoCode(code)\<close> looks the code up in its normalized form, trimmed
  and in upper case (\<^const>\<open>normalized_code\<close>). Whenever that form is empty or is no key
  of the promo table, the call returns \<^verbatim>\<open>false\<close>, the state is the prior state in every
  field, and nothing is thrown.
\<close>

theorem applyPromoCode_rejects:
  assumes "normalized_code code = [] \<or> normalized_code code \<notin> fst ` set PROMO_CODES"
  shows "applyPromoCode now code s = Inr (False, s)"
  using assms by (auto simp: applyPromoCode_def getPromoConfig_None Let_def)

theorem applyPromoCode_rejects_witness:
  "applyPromoCode example_now (Some ''BOGUS'') expired_buyer_trial =
     Inr (False, expired_buyer_trial) \<and>
   applyPromoCode example_now (Some []) expired_buyer_trial = Inr (False, expired_buyer_trial) \<and>
   applyPromoCode example_now (Some '' '') expired_buyer_trial =
     Inr (False, expired_buyer_trial) \<and>
   applyPromoCode example_now None expired_buyer_trial = Inr (False, expired_buyer_trial)"
proof -
  have "normalized_code (Some ''BOGUS'') \<notin> fst ` set PROMO_CODES"
    by (simp add: normalized_examples PROMO_CODES_def)
  then have a: "applyPromoCode example_now (Some ''BOGUS'') expired_buyer_trial =
      Inr (False, expired_buyer_trial)"
    by (simp add: applyPromoCode_rejects)
  have b: "applyPromoCode example_now (Some []) expired_buyer_trial =
      Inr (False, expired_buyer_trial)"
    by (rule applyPromoCode_rejects) (simp add: normalized_examples)
  have c: "applyPromoCode example_now (Some '' '') expired_buyer_trial =
      Inr (False, expired_buyer_trial)"
    by (rule applyPromoCode_rejects) (simp add: normalized_examples)
  have d: "applyPromoCode example_now None expired_buyer_trial =
      Inr (False, expired_buyer_trial)"
    by (rule applyPromoCode_rejects) (simp add: normalized_examples)
  from a b c d show ?thesis by blast
qed

subsection \<open>Downgrade\<close>

text \<open>
  Claim C5. \<^verbatim>\<open>downgrade()\<close> takes a buyer to plan \<^verbatim>\<open>'basic'\<close> with status
  \<^verbatim>\<open>'trial_expired'\<close> and every other account type to plan \<^verbatim>\<open>'start'\<close> with status
  \<^verbatim>\<open>'active'\<close>; in both cases the end of trial and the promo code become \<^verbatim>\<open>null\<close>,
  the overrides become empty, the billing period becomes \<^verbatim>\<open>'monthly'\<close>, and the account
  type stays.
\<close>

theorem downgrade_result:
  "(accountType s = ''buyer'' \<longrightarrow>
      planId (downgrade s) = ''basic'' \<and> status (downgrade s) = ''trial_expired'') \<and>
   (accountType s \<noteq> ''buyer'' \<longrightarrow>
      planId (downgrade s) = ''start'' \<and> status (downgrade s) = ''active'') \<and>
   trialEndsAt (downgrade s) = None \<and> overrides (downgrade s) = Map.empty \<and>
   promoCode (downgrade s) = None \<and> billingPeriod (downgrade s) = ''monthly'' \<and>
   accountType (downgrade s) = accountType s"
  by (simp add: downgrade_def Let_def)

theorem downgrade_result_witness:
  "planId (downgrade expired_buyer_trial) = ''basic'' \<and>
   status (downgrade expired_buyer_trial) = ''trial_expired'' \<and>
   accountType (downgrade expired_buyer_trial) = ''buyer'' \<and>
   planId (downgrade expired_enterprise_trial) = ''start'' \<and>
   status (downgrade expired_enterprise_trial) = ''active'' \<and>
   billingPeriod (downgrade expired_enterprise_trial) = ''monthly'' \<and>
   promoCode (downgrade expired_enterprise_trial) = None \<and>
   trialEndsAt (downgrade expired_enterprise_trial) = None"
  using downgrade_result [of expired_buyer_trial] downgrade_result [of expired_enterprise_trial]
  by (simp add: expired_buyer_trial_def expired_enterprise_trial_def)

subsection \<open>Numeric limits\<close>

lemma js_get_own: "obj key = Some v \<Longrightarrow> js_get obj key = Some v"
  by (simp add: js_get_def)


lemma js_get_inherited:
  "obj key = None \<Longrightarrow> key \<in> set Object_prototype_names \<Longrightarrow> js_get obj key = Some JInherited"
  by (simp add: js_get_def)

lemma js_get_start_maxProjects:
  "js_get (getEffectiveLimits (Str ''start'') acct) ''maxProjects'' = Some (JNum 3)"
  by (rule js_get_own) (rule limits_start_maxProjects)



subsection \<open>The trial invariant\<close>

lemma trial_inv_applyPromoCode:
  assumes "trial_inv s"
  shows "trial_inv (state_after s (map_sum id snd (applyPromoCode now code s)))"
proof (cases "applyPromoCode now code s")
  case (Inl e)
  with assms show ?thesis by (simp add: state_after_def)
next
  case (Inr r)
  then show ?thesis
    using assms
    by (auto simp: applyPromoCode_def state_after_def trial_inv_def toISOString_def Let_def
        split: option.splits if_splits)
qed

text \<open>
  Claim C3, as amended. From a state where a trialing status comes with an end of trial,
  \<^verbatim>\<open>setAccountType\<close>, \<^verbatim>\<open>setBillingPeriod\<close>, \<^verbatim>\<open>startTrial\<close>, \<^verbatim>\<open>startBuyerTrial\<close>,
  \<^verbatim>\<open>extendTrial\<close>, \<^verbatim>\<open>applyPromoCode\<close>, \<^verbatim>\<open>downgrade\<close> and \<^verbatim>\<open>setOverrides\<close> lead to
  such a state again (a call that throws leaves the state as it was). \<^verbatim>\<open>setPlan\<close>
  writes its arguments as they are: the state it leaves has the property exactly when
  the status passed is not \<^verbatim>\<open>'trialing'\<close> or the end of trial passed is not
  \<^verbatim>\<open>null\<close>.
\<close>

theorem trial_inv_transitions:
  assumes "trial_inv s"
  shows "trial_inv (setAccountType a s) \<and> trial_inv (setBillingPeriod b s) \<and>
    trial_inv (state_after s (startTrial now s)) \<and>
    trial_inv (state_after s (startBuyerTrial now days s)) \<and>
    trial_inv (state_after s (extendTrial now extraDays s)) \<and>
    trial_inv (state_after s (map_sum id snd (applyPromoCode now code s))) \<and>
    trial_inv (downgrade s) \<and> trial_inv (setOverrides ov s) \<and>
    (trial_inv (setPlan p st te s) \<longleftrightarrow> st \<noteq> Some ''trialing'' \<or> te \<noteq> None)"
proof (intro conjI)
  show "trial_inv (setAccountType a s)" "trial_inv (setBillingPeriod b s)"
    "trial_inv (setOverrides ov s)"
    using assms by (simp_all add: trial_inv_def setAccountType_def setBillingPeriod_def
        setOverrides_def)
  show "trial_inv (state_after s (startTrial now s))"
    using assms by (simp add: trial_inv_def startTrial_def state_after_def toISOString_def)
  show "trial_inv (state_after s (startBuyerTrial now days s))"
    using assms
    by (simp add: trial_inv_def startBuyerTrial_def state_after_def toISOString_def Let_def)
  show "trial_inv (state_after s (extendTrial now extraDays s))"
    using assms
    by (simp add: trial_inv_def extendTrial_def state_after_def toISOString_def Let_def)
  show "trial_inv (state_after s (map_sum id snd (applyPromoCode now code s)))"
    by (rule trial_inv_applyPromoCode [OF assms])
  show "trial_inv (downgrade s)"
    by (simp add: trial_inv_def downgrade_def Let_def)
  show "trial_inv (setPlan p st te s) \<longleftrightarrow> st \<noteq> Some ''trialing'' \<or> te \<noteq> None"
    by (cases st) (auto simp: trial_inv_def setPlan_def)
qed

theorem trial_inv_transitions_witness:
  "trial_inv expired_buyer_trial \<and>
   trial_inv (downgrade expired_buyer_trial) \<and>
   trial_inv (state_after expired_buyer_trial (extendTrial example_now 7 expired_buyer_trial)) \<and>
   trial_inv (state_after expired_buyer_trial
     (map_sum id snd (applyPromoCode example_now (Some ''STREFEX30'') expired_buyer_trial))) \<and>
   trial_inv (setPlan ''start'' None None expired_buyer_trial) \<and>
   trial_inv (setPlan ''basic'' (Some ''trialing'') (Some example_now) expired_buyer_trial) \<and>
   \<not> trial_inv (setPlan ''basic'' (Some ''trialing'') None expired_buyer_trial)"
proof -
  have i: "trial_inv expired_buyer_trial"
    by (simp add: trial_inv_def expired_buyer_trial_def)
  note t = trial_inv_transitions [OF i]
  show ?thesis
    using i t [of _ _ example_now _ 7 "Some ''STREFEX30''" _ "''start''" None None]
      t [of _ _ example_now _ 7 "Some ''STREFEX30''" _ "''basic''" "Some ''trialing''"
        "Some example_now"]
      t [of _ _ example_now _ 7 "Some ''STREFEX30''" _ "''basic''" "Some ''trialing''" None]
    by simp
qed

text \<open>
  Claim C3 as stated fails for \<^verbatim>\<open>setPlan\<close>: the initial state has the property, and
  \<^verbatim>\<open>setPlan('basic', 'trialing')\<close>, with the end of trial left at its default
  \<^verbatim>\<open>null\<close>, leaves a trialing state with no end of trial.
\<close>

theorem setPlan_breaks_trial_inv:
  "trial_inv initial_state \<and>
   \<not> trial_inv (setPlan ''basic'' (Some ''trialing'') None initial_state)"
  by (simp add: trial_inv_def setPlan_def initial_state_def)

subsection \<open>Queries on a lapsed trial\<close>

lemma hasFeature_lapsed:
  "trialLapsed now s \<Longrightarrow> hasFeature False now k s = (JBool False, downgrade s)"
  by (simp add: hasFeature_def)

text \<open>A feature key that the objects only inherit is found by \<^verbatim>\<open>in\<close> and read as the
  inherited member.\<close>

lemma hasFeature_inherited_name:
  "hasFeature False example_now ''constructor'' initial_state = (JInherited, initial_state)"
  by (simp add: hasFeature_def trialLapsed_def initial_state_def js_in_def js_get_def
      Object_prototype_names_def)

lemma hasTier_lapsed:
  "trialLapsed now s \<Longrightarrow> hasTier False now r s = (0 \<ge> r, downgrade s)"
  by (simp add: hasTier_def TIERS_START_def)

lemma lapsed_examples:
  "trialLapsed example_now expired_buyer_trial" "trialLapsed example_now expired_enterprise_trial"
  by (simp_all add: trialLapsed_def expired_buyer_trial_def expired_enterprise_trial_def
      MS_PER_DAY_def)

text \<open>
  Claim C1, evaluated on the code. A buyer whose Basic trial ended a day ago asks for
  \<^verbatim>\<open>basicDashboard\<close>: \<^verbatim>\<open>hasFeature\<close> downgrades the state to \<^verbatim>\<open>'trial_expired'\<close> and
  answers \<^verbatim>\<open>false\<close>, although the same question on the downgraded state is answered
  \<^verbatim>\<open>true\<close> by the baseline allowlist.
\<close>

theorem hasFeature_lapsed_denies_baseline:
  "trialLapsed example_now expired_buyer_trial \<and>
   hasFeature False example_now ''basicDashboard'' expired_buyer_trial =
     (JBool False, downgrade expired_buyer_trial) \<and>
   status (downgrade expired_buyer_trial) = ''trial_expired'' \<and>
   hasFeature False example_now ''basicDashboard'' (downgrade expired_buyer_trial) =
     (JBool True, downgrade expired_buyer_trial)"
  by (simp add: lapsed_examples hasFeature_lapsed)
    (simp add: hasFeature_def trialLapsed_def downgrade_def expired_buyer_trial_def baseline_def
      js_get_def Let_def)

text \<open>
  Claim C2, evaluated on the code. A seller whose Enterprise trial ended a day ago asks
  whether a thousand projects are within \<^verbatim>\<open>maxProjects\<close>: \<^verbatim>\<open>withinLimit\<close> answers
  \<^verbatim>\<open>true\<close> from the Enterprise limits and changes nothing, while on the downgraded
  state the answer is \<^verbatim>\<open>false\<close>; \<^verbatim>\<open>hasFeature\<close> and \<^verbatim>\<open>hasTier\<close> on the same state
  do downgrade.
\<close>

theorem withinLimit_ignores_lapsed_trial:
  "trialLapsed example_now expired_enterprise_trial \<and>
   withinLimit False ''maxProjects'' 1000 expired_enterprise_trial \<and>
   \<not> withinLimit False ''maxProjects'' 1000 (downgrade expired_enterprise_trial) \<and>
   snd (hasFeature False example_now ''maxProjects'' expired_enterprise_trial) =
     downgrade expired_enterprise_trial \<and>
   snd (hasTier False example_now 0 expired_enterprise_trial) =
     downgrade expired_enterprise_trial"
proof (intro conjI)
  show "trialLapsed example_now expired_enterprise_trial" by (rule lapsed_examples)
  show "withinLimit False ''maxProjects'' 1000 expired_enterprise_trial"
    by (simp add: withinLimit_def expired_enterprise_trial_def
        limits_enterprise_seller_maxProjects js_get_own)
  show "\<not> withinLimit False ''maxProjects'' 1000 (downgrade expired_enterprise_trial)"
    by (simp add: withinLimit_def downgrade_def expired_enterprise_trial_def Let_def
        js_get_start_maxProjects)
  show "snd (hasFeature False example_now ''maxProjects'' expired_enterprise_trial) =
     downgrade expired_enterprise_trial"
    by (simp add: hasFeature_lapsed lapsed_examples)
  show "snd (hasTier False example_now 0 expired_enterprise_trial) =
     downgrade expired_enterprise_trial"
    by (simp add: hasTier_lapsed lapsed_examples)
qed

end
